theory Spec2Isabelle
  imports Complex_Main
begin

section \<open>Arrays and the numpy operations the two routines call\<close>

text \<open>
  The notebooks define two numerical routines on numpy arrays:
  \<^verbatim>\<open>linear_regression_closed_form\<close> (Notebook 2) and
  \<^verbatim>\<open>gradient_descent\<close> (Notebook 3).

  A two-dimensional array is modelled with its shape: the number of rows is the
  length of \<open>rows\<close>, the number of columns is recorded in \<open>shape1\<close>, so that an
  array with no rows still has a column count, as in numpy. A one-dimensional array
  is a list. Array elements are real numbers: the model computes in exact
  arithmetic, and the rounding, overflow and nan of IEEE doubles are outside it.
  The statements below are therefore about shapes, failures, the order of the
  computation and aliasing: their proofs unfold the control flow and rest on no
  law of real arithmetic that doubles lack, and the runs whose numbers are
  evaluated use small integers and dyadic fractions. Nothing is stated about the
  values the code computes where it rounds; in particular not that the
  closed-form solver returns the exact least-squares coefficients.
  The one place where numpy would produce nan on real-valued input is a division
  by the row count \<open>n = 0\<close>, where HOL has \<open>x / 0 = 0\<close>: on a design matrix with
  no rows the coefficients and losses of the model are 0 where numpy's are nan.
  For that case the statements below say whether a call fails or returns, how
  many history entries it gives and from which vector each entry is computed;
  the numbers themselves are the model's.

  numpy raises \<^verbatim>\<open>ValueError\<close> on a shape mismatch and
  \<^verbatim>\<open>LinAlgError\<close> from \<^verbatim>\<open>np.linalg.inv\<close>; both are values of \<open>error\<close>,
  and every operation that can raise returns \<open>error + result\<close>. \<open>TypeError\<close>
  stands for a call whose arguments are not arrays of the expected rank; it only
  occurs in the functions on a store of objects further down.
\<close>

datatype error = ValueError | LinAlgError | TypeError

type_synonym vec = "real list"

record ndarray2 =
  shape1 :: nat
  rows :: "real list list"

definition shape0 :: "ndarray2 \<Rightarrow> nat" where
  "shape0 A = length (rows A)"

text \<open>A well-formed array: every row has \<open>shape1\<close> entries.\<close>

definition wf_array :: "ndarray2 \<Rightarrow> bool" where
  "wf_array A = list_all (\<lambda>r. length r = shape1 A) (rows A)"

text \<open>\<^verbatim>\<open>np.ones((n, m))\<close> and \<^verbatim>\<open>np.zeros((m,))\<close>.\<close>

definition np_ones :: "nat \<Rightarrow> nat \<Rightarrow> ndarray2" where
  "np_ones n m = \<lparr>shape1 = m, rows = replicate n (replicate m 1)\<rparr>"

definition np_zeros :: "nat \<Rightarrow> vec" where
  "np_zeros m = replicate m 0"

text \<open>
  \<^verbatim>\<open>np.c_[A, B]\<close> on two-dimensional arrays: the columns of \<open>B\<close> are put after
  those of \<open>A\<close>; the row counts must agree.
\<close>

definition np_c :: "ndarray2 \<Rightarrow> ndarray2 \<Rightarrow> error + ndarray2" where
  "np_c A B =
     (if shape0 A \<noteq> shape0 B then Inl ValueError
      else Inr \<lparr>shape1 = shape1 A + shape1 B, rows = map2 (@) (rows A) (rows B)\<rparr>)"

text \<open>\<^verbatim>\<open>A.T\<close>: the transpose, of shape \<open>(shape1 A, shape0 A)\<close>.\<close>

definition T :: "ndarray2 \<Rightarrow> ndarray2" where
  "T A = \<lparr>shape1 = shape0 A, rows = map (\<lambda>j. map (\<lambda>r. r ! j) (rows A)) [0..<shape1 A]\<rparr>"

text \<open>Unary minus on a two-dimensional array.\<close>

definition neg :: "ndarray2 \<Rightarrow> ndarray2" where
  "neg A = \<lparr>shape1 = shape1 A, rows = map (map uminus) (rows A)\<rparr>"

definition dot :: "vec \<Rightarrow> vec \<Rightarrow> real" where
  "dot u v = sum_list (map2 (*) u v)"

text \<open>
  \<^verbatim>\<open>A @ v\<close> for a two-dimensional \<open>A\<close> and a one-dimensional \<open>v\<close>: raises
  unless the column count of \<open>A\<close> is the length of \<open>v\<close>.
\<close>

definition matvec :: "ndarray2 \<Rightarrow> vec \<Rightarrow> error + vec" where
  "matvec A v =
     (if shape1 A \<noteq> length v then Inl ValueError
      else Inr (map (\<lambda>r. dot r v) (rows A)))"

text \<open>\<^verbatim>\<open>A @ B\<close> for two-dimensional arrays.\<close>

definition matmul :: "ndarray2 \<Rightarrow> ndarray2 \<Rightarrow> error + ndarray2" where
  "matmul A B =
     (if shape1 A \<noteq> shape0 B then Inl ValueError
      else Inr \<lparr>shape1 = shape1 B,
                rows = map (\<lambda>r. map (\<lambda>c. dot r c) (rows (T B))) (rows A)\<rparr>)"

text \<open>
  \<^verbatim>\<open>u - v\<close> on one-dimensional arrays, with numpy's broadcasting: equal
  lengths subtract elementwise, an array of length one is stretched to the other's
  length, anything else raises.
\<close>

definition np_subtract :: "vec \<Rightarrow> vec \<Rightarrow> error + vec" where
  "np_subtract u v =
     (if length u = length v then Inr (map2 (-) u v)
      else if length u = 1 then Inr (map (\<lambda>b. hd u - b) v)
      else if length v = 1 then Inr (map (\<lambda>a. a - hd v) u)
      else Inl ValueError)"

text \<open>
  \<^verbatim>\<open>u -= v\<close>: the in-place subtraction keeps the shape of \<open>u\<close>, so \<open>v\<close> may be
  stretched but \<open>u\<close> may not.
\<close>

definition np_isubtract :: "vec \<Rightarrow> vec \<Rightarrow> error + vec" where
  "np_isubtract u v =
     (if length u = length v then Inr (map2 (-) u v)
      else if length v = 1 then Inr (map (\<lambda>a. a - hd v) u)
      else Inl ValueError)"

text \<open>\<^verbatim>\<open>np.mean\<close> of a one-dimensional array.\<close>

definition np_mean :: "vec \<Rightarrow> real" where
  "np_mean v = sum_list v / real (length v)"

section \<open>Gradient descent (Notebook 3)\<close>

text \<open>
  \<^verbatim>\<open>
  def gradient_descent(X, y, lr=0.01, epochs=100):
      n = X.shape[0]
      X_b = np.c_[np.ones((n, 1)), X]  # Add bias
      beta = np.zeros((2,))
      history = []
      for epoch in range(epochs):
          y_pred = X_b @ beta
          error = y - y_pred
          gradient = -X_b.T @ error / n
          beta -= lr * gradient
          loss = 0.5 * np.mean(error ** 2)
          history.append((beta.copy(), loss))
      return beta, history
  \<close>
  One pass of the loop body is \<open>gd_step\<close>: from the current \<open>beta\<close> it gives the
  updated \<open>beta\<close> and the loss, or the exception of the first operation that raises.
  In \<^verbatim>\<open>-X_b.T @ error / n\<close> the unary minus binds first, then \<^verbatim>\<open>@\<close>, then the
  division.
\<close>

type_synonym history = "(vec \<times> real) list"

definition gd_step :: "ndarray2 \<Rightarrow> vec \<Rightarrow> real \<Rightarrow> nat \<Rightarrow> vec \<Rightarrow> error + (vec \<times> real)" where
  "gd_step X_b y lr n beta =
     (case matvec X_b beta of Inl e \<Rightarrow> Inl e | Inr y_pred \<Rightarrow>
     (case np_subtract y y_pred of Inl e \<Rightarrow> Inl e | Inr err \<Rightarrow>
     (case matvec (neg (T X_b)) err of Inl e \<Rightarrow> Inl e | Inr g \<Rightarrow>
     (let gradient = map (\<lambda>x. x / real n) g in
     (case np_isubtract beta (map (\<lambda>x. lr * x) gradient) of Inl e \<Rightarrow> Inl e | Inr beta' \<Rightarrow>
     (let loss = 0.5 * np_mean (map (\<lambda>x. x ^ 2) err) in
      Inr (beta', loss)))))))"

text \<open>
  The loop \<^verbatim>\<open>for epoch in range(epochs)\<close>, by recursion on the number of passes
  left. An exception leaves the loop at once.
\<close>

fun gd_loop :: "nat \<Rightarrow> ndarray2 \<Rightarrow> vec \<Rightarrow> real \<Rightarrow> nat \<Rightarrow> vec \<Rightarrow> history \<Rightarrow> error + (vec \<times> history)" where
  "gd_loop 0 X_b y lr n beta history = Inr (beta, history)"
| "gd_loop (Suc k) X_b y lr n beta history =
     (case gd_step X_b y lr n beta of
        Inl e \<Rightarrow> Inl e
      | Inr (beta', loss) \<Rightarrow> gd_loop k X_b y lr n beta' (history @ [(beta', loss)]))"

text \<open>
  \<^verbatim>\<open>epochs\<close> is a Python integer; \<^verbatim>\<open>range(epochs)\<close> is empty when it is zero or
  negative, so the loop runs \<open>nat epochs\<close> times.
\<close>

definition gradient_descent :: "ndarray2 \<Rightarrow> vec \<Rightarrow> real \<Rightarrow> int \<Rightarrow> error + (vec \<times> history)" where
  "gradient_descent X y lr epochs =
     (let n = shape0 X in
      case np_c (np_ones n 1) X of Inl e \<Rightarrow> Inl e | Inr X_b \<Rightarrow>
      gd_loop (nat epochs) X_b y lr n (np_zeros 2) [])"

text \<open>
  The augmented design matrix: a constant 1 put before every row. It is what
  \<^verbatim>\<open>np.c_[np.ones((n, 1)), X]\<close> builds (lemma \<open>np_c_ones\<close>).
\<close>

definition augment :: "ndarray2 \<Rightarrow> ndarray2" where
  "augment X = \<lparr>shape1 = Suc (shape1 X), rows = map ((#) 1) (rows X)\<rparr>"



section \<open>The closed-form solver (Notebook 2)\<close>

text \<open>
  Modelled from the spec: \<^verbatim>\<open>np.linalg.inv\<close>, which is numpy's and not code of the
  notebooks. The specification has the solver compute \<open>(A\<^sup>T A)\<^sup>-\<^sup>1 A\<^sup>T y\<close> and fail
  when \<open>A\<^sup>T A\<close> is not invertible; numpy documents the function as returning the
  inverse of a square matrix and raising \<^verbatim>\<open>LinAlgError\<close> when the matrix is not
  square or is singular. The model computes it in exact arithmetic by Gauss-Jordan elimination
  on the rows of \<open>[A | I]\<close>, each kept as a pair (left part, right part): for column
  \<open>k\<close> a row with a non-zero entry in that column is taken from the rows not yet
  used (none: the matrix is singular), scaled to have 1 there, and subtracted from
  every other row. LAPACK works on rounded doubles: its result differs from the
  exact inverse, and it reports a singular matrix only when a pivot is exactly
  zero after rounding. What is used of the model below holds for LAPACK too: the
  only failure is \<^verbatim>\<open>LinAlgError\<close>, the result has the shape of the argument, a
  matrix of zeros is reported singular, and the small integer matrices of the
  evaluated runs are inverted.
\<close>

type_synonym rowpair = "vec \<times> vec"

definition scale_row :: "real \<Rightarrow> rowpair \<Rightarrow> rowpair" where
  "scale_row c p = (map (\<lambda>x. c * x) (fst p), map (\<lambda>x. c * x) (snd p))"

definition sub_row :: "real \<Rightarrow> rowpair \<Rightarrow> rowpair \<Rightarrow> rowpair" where
  "sub_row f p r =
     (map2 (\<lambda>a b. a - f * b) (fst r) (fst p), map2 (\<lambda>a b. a - f * b) (snd r) (snd p))"

definition eliminate :: "nat \<Rightarrow> rowpair \<Rightarrow> rowpair \<Rightarrow> rowpair" where
  "eliminate k p r = sub_row (fst r ! k) p r"

fun find_pivot :: "nat \<Rightarrow> rowpair list \<Rightarrow> (rowpair \<times> rowpair list) option" where
  "find_pivot k [] = None"
| "find_pivot k (r # rs) =
     (if fst r ! k \<noteq> 0 then Some (r, rs)
      else (case find_pivot k rs of None \<Rightarrow> None | Some (p, rest) \<Rightarrow> Some (p, r # rest)))"

fun gauss_jordan :: "nat \<Rightarrow> nat \<Rightarrow> rowpair list \<Rightarrow> rowpair list \<Rightarrow> rowpair list option" where
  "gauss_jordan 0 k ds ts = Some ds"
| "gauss_jordan (Suc m) k ds ts =
     (case find_pivot k ts of
        None \<Rightarrow> None
      | Some (p, rest) \<Rightarrow>
          (let q = scale_row (1 / fst p ! k) p in
           gauss_jordan m (Suc k) (map (eliminate k q) ds @ [q]) (map (eliminate k q) rest)))"

definition identity_rows :: "nat \<Rightarrow> real list list" where
  "identity_rows n = map (\<lambda>i. map (\<lambda>j. if i = j then 1 else 0) [0..<n]) [0..<n]"

definition np_linalg_inv :: "ndarray2 \<Rightarrow> error + ndarray2" where
  "np_linalg_inv A =
     (if shape0 A \<noteq> shape1 A then Inl LinAlgError
      else (case gauss_jordan (shape0 A) 0 [] (zip (rows A) (identity_rows (shape0 A))) of
              None \<Rightarrow> Inl LinAlgError
            | Some ds \<Rightarrow> Inr \<lparr>shape1 = shape1 A, rows = map snd ds\<rparr>))"

text \<open>
  \<^verbatim>\<open>
  def linear_regression_closed_form(X: np.ndarray, y: np.ndarray) -> np.ndarray:
      """Solves for beta using the normal equation."""
      X_b = np.c_[np.ones((X.shape[0], 1)), X]  # Add bias term manually
      beta_hat = np.linalg.inv(X_b.T @ X_b) @ X_b.T @ y
      return beta_hat
  \<close>
  \<^verbatim>\<open>@\<close> associates to the left: the inverse is multiplied by \<^verbatim>\<open>X_b.T\<close> first,
  and the product by \<open>y\<close>. \<open>normal_equation\<close> is the second line of the body.
\<close>

definition normal_equation :: "ndarray2 \<Rightarrow> vec \<Rightarrow> error + vec" where
  "normal_equation X_b y =
     (case matmul (T X_b) X_b of Inl e \<Rightarrow> Inl e | Inr G \<Rightarrow>
     (case np_linalg_inv G of Inl e \<Rightarrow> Inl e | Inr Ginv \<Rightarrow>
     (case matmul Ginv (T X_b) of Inl e \<Rightarrow> Inl e | Inr P \<Rightarrow>
      matvec P y)))"

definition linear_regression_closed_form :: "ndarray2 \<Rightarrow> vec \<Rightarrow> error + vec" where
  "linear_regression_closed_form X y =
     (case np_c (np_ones (shape0 X) 1) X of Inl e \<Rightarrow> Inl e | Inr X_b \<Rightarrow>
      normal_equation X_b y)"

section \<open>The routines on a store of array objects\<close>

text \<open>
  numpy arrays are mutable objects and \<^verbatim>\<open>X\<close>, \<^verbatim>\<open>y\<close> are references to them. To
  state that the inputs are not written and that the results are new objects, the
  two routines are also run on a store: a map from addresses to arrays, with the
  next free address. An operation that creates an array takes a new cell;
  \<^verbatim>\<open>beta -= lr * gradient\<close> overwrites the cell of \<^verbatim>\<open>beta\<close>; \<^verbatim>\<open>beta.copy()\<close>
  takes a new cell with the contents of \<^verbatim>\<open>beta\<close> at that moment. The arithmetic of
  a pass is \<open>gd_step\<close>, that of the solver \<open>normal_equation\<close>; their temporaries
  (\<^verbatim>\<open>y_pred\<close>, \<^verbatim>\<open>error\<close>, \<^verbatim>\<open>gradient\<close>, the matrix products) are new arrays
  that nothing refers to afterwards, and get no cell. The history is a Python
  list of pairs (reference to a snapshot, loss). A reference that does not hold
  an array of the expected rank stops the call with \<open>TypeError\<close>; the statements
  about the store are for a two-dimensional \<open>X\<close> and a one-dimensional \<open>y\<close>.
\<close>

datatype obj = Arr1 vec | Arr2 ndarray2

type_synonym addr = nat

record store =
  cells :: "addr \<Rightarrow> obj option"
  fresh :: addr

text \<open>In a well-formed store nothing lives at or above the next free address.\<close>

definition store_ok :: "store \<Rightarrow> bool" where
  "store_ok s \<longleftrightarrow> (\<forall>a. fresh s \<le> a \<longrightarrow> cells s a = None)"

definition alloc :: "store \<Rightarrow> obj \<Rightarrow> addr \<times> store" where
  "alloc s v = (fresh s, s\<lparr>cells := (cells s)(fresh s \<mapsto> v), fresh := Suc (fresh s)\<rparr>)"

definition store_write :: "store \<Rightarrow> addr \<Rightarrow> obj \<Rightarrow> store" where
  "store_write s a v = s\<lparr>cells := (cells s)(a \<mapsto> v)\<rparr>"

definition get1 :: "store \<Rightarrow> addr \<Rightarrow> vec option" where
  "get1 s a = (case cells s a of Some (Arr1 v) \<Rightarrow> Some v | _ \<Rightarrow> None)"

definition get2 :: "store \<Rightarrow> addr \<Rightarrow> ndarray2 option" where
  "get2 s a = (case cells s a of Some (Arr2 A) \<Rightarrow> Some A | _ \<Rightarrow> None)"

type_synonym history_st = "(addr \<times> real) list"

fun gd_loop_st ::
  "nat \<Rightarrow> store \<Rightarrow> addr \<Rightarrow> addr \<Rightarrow> real \<Rightarrow> nat \<Rightarrow> addr \<Rightarrow> history_st
     \<Rightarrow> (error + addr \<times> history_st) \<times> store" where
  "gd_loop_st 0 s aXb ay lr n abeta history = (Inr (abeta, history), s)"
| "gd_loop_st (Suc k) s aXb ay lr n abeta history =
     (case get2 s aXb of None \<Rightarrow> (Inl TypeError, s) | Some X_b \<Rightarrow>
     (case get1 s ay of None \<Rightarrow> (Inl TypeError, s) | Some y \<Rightarrow>
     (case get1 s abeta of None \<Rightarrow> (Inl TypeError, s) | Some beta \<Rightarrow>
     (case gd_step X_b y lr n beta of
        Inl e \<Rightarrow> (Inl e, s)
      | Inr (beta', loss) \<Rightarrow>
          (let s1 = store_write s abeta (Arr1 beta');
               (acopy, s2) = alloc s1 (Arr1 beta')
           in gd_loop_st k s2 aXb ay lr n abeta (history @ [(acopy, loss)]))))))"

definition gradient_descent_st ::
  "store \<Rightarrow> addr \<Rightarrow> addr \<Rightarrow> real \<Rightarrow> int \<Rightarrow> (error + addr \<times> history_st) \<times> store" where
  "gradient_descent_st s aX ay lr epochs =
     (case get2 s aX of None \<Rightarrow> (Inl TypeError, s) | Some X \<Rightarrow>
     (let n = shape0 X in
     (case np_c (np_ones n 1) X of Inl e \<Rightarrow> (Inl e, s) | Inr X_b \<Rightarrow>
     (let (aXb, s1) = alloc s (Arr2 X_b);
          (abeta, s2) = alloc s1 (Arr1 (np_zeros 2))
      in gd_loop_st (nat epochs) s2 aXb ay lr n abeta []))))"

definition linear_regression_closed_form_st ::
  "store \<Rightarrow> addr \<Rightarrow> addr \<Rightarrow> (error + addr) \<times> store" where
  "linear_regression_closed_form_st s aX ay =
     (case get2 s aX of None \<Rightarrow> (Inl TypeError, s) | Some X \<Rightarrow>
     (case np_c (np_ones (shape0 X) 1) X of Inl e \<Rightarrow> (Inl e, s) | Inr X_b \<Rightarrow>
     (let (aXb, s1) = alloc s (Arr2 X_b) in
     (case get1 s1 ay of None \<Rightarrow> (Inl TypeError, s1) | Some y \<Rightarrow>
     (case normal_equation X_b y of
        Inl e \<Rightarrow> (Inl e, s1)
      | Inr beta_hat \<Rightarrow> (let (a, s2) = alloc s1 (Arr1 beta_hat) in (Inr a, s2)))))))"

text \<open>The history as the caller reads it: each reference followed to its array.\<close>

definition read_history :: "store \<Rightarrow> history_st \<Rightarrow> (vec option \<times> real) list" where
  "read_history s h = map (\<lambda>(a, l). (get1 s a, l)) h"

text \<open>A store holding the design matrix \<open>[[0], [1]]\<close> at address 0 and the target \<open>[1, 3]\<close> at address 1.\<close>

definition example_store :: store where
  "example_store =
     \<lparr>cells = [0 \<mapsto> Arr2 \<lparr>shape1 = 1, rows = [[0], [1]]\<rparr>, 1 \<mapsto> Arr1 [1, 3]],
      fresh = 2\<rparr>"

section \<open>Basic facts\<close>

lemma np_c_ones: "np_c (np_ones (shape0 X) (Suc 0)) X = Inr (augment X)"
proof -
  have "map2 (@) (replicate (length xs) [1::real]) xs = map ((#) 1) xs" for xs :: "real list list"
    by (induction xs) simp_all
  then show ?thesis
    by (simp add: np_c_def np_ones_def shape0_def augment_def)
qed

lemma shape_augment [simp]: "shape1 (augment X) = Suc (shape1 X)" "shape0 (augment X) = shape0 X"
  by (simp_all add: augment_def shape0_def)

lemma length_np_zeros [simp]: "length (np_zeros m) = m"
  by (simp add: np_zeros_def)

lemma gradient_descent_augment:
  "gradient_descent X y lr epochs = gd_loop (nat epochs) (augment X) y lr (shape0 X) (np_zeros 2) []"
  by (simp add: gradient_descent_def np_c_ones)

lemma shape_T [simp]: "shape1 (T A) = shape0 A" "shape0 (T A) = shape1 A"
  by (simp_all add: T_def shape0_def)

lemma shape_neg [simp]: "shape1 (neg A) = shape1 A" "shape0 (neg A) = shape0 A"
  by (simp_all add: neg_def shape0_def)

lemma matvec_Inr_length: "matvec A v = Inr w \<Longrightarrow> length w = shape0 A"
  by (auto simp: matvec_def shape0_def split: if_splits)

lemma matvec_Inl: "matvec A v = Inl e \<Longrightarrow> e = ValueError"
  by (auto simp: matvec_def split: if_splits)

lemma matvec_Inr_iff: "(\<exists>w. matvec A v = Inr w) \<longleftrightarrow> shape1 A = length v"
  by (auto simp: matvec_def)

lemma np_subtract_Inr_length:
  "np_subtract u v = Inr w \<Longrightarrow> length w = (if length u = 1 then length v else length u)"
  by (auto simp: np_subtract_def split: if_splits)

lemma np_subtract_Inl: "np_subtract u v = Inl e \<Longrightarrow> e = ValueError"
  by (auto simp: np_subtract_def split: if_splits)

lemma np_subtract_Inr_iff:
  "(\<exists>w. np_subtract u v = Inr w) \<longleftrightarrow> length u = length v \<or> length u = 1 \<or> length v = 1"
  by (auto simp: np_subtract_def)

lemma np_isubtract_Inr_length: "np_isubtract u v = Inr w \<Longrightarrow> length w = length u"
  by (auto simp: np_isubtract_def split: if_splits)

lemma np_isubtract_Inl: "np_isubtract u v = Inl e \<Longrightarrow> e = ValueError"
  by (auto simp: np_isubtract_def split: if_splits)

lemma gd_step_Inl: "gd_step X_b y lr n beta = Inl e \<Longrightarrow> e = ValueError"
  unfolding gd_step_def Let_def
  by (auto split: sum.splits dest: matvec_Inl np_subtract_Inl np_isubtract_Inl)

lemma gd_step_length:
  "gd_step X_b y lr n beta = Inr (beta', loss) \<Longrightarrow> length beta' = length beta"
  unfolding gd_step_def Let_def
  by (auto split: sum.splits dest: np_isubtract_Inr_length)

lemma gd_step_Inr_shapes:
  assumes "gd_step X_b y lr n beta = Inr r"
  shows "shape1 X_b = length beta \<and> (length y = shape0 X_b \<or> length y = 1)"
proof -
  from assms obtain y_pred err where
    1: "matvec X_b beta = Inr y_pred" and 2: "np_subtract y y_pred = Inr err"
    and 3: "\<exists>g. matvec (neg (T X_b)) err = Inr g"
    unfolding gd_step_def Let_def by (auto split: sum.splits)
  from 1 have a: "shape1 X_b = length beta" using matvec_Inr_iff by blast
  from 1 have b: "length y_pred = shape0 X_b" by (rule matvec_Inr_length)
  from 3 have c: "length err = shape0 X_b" using matvec_Inr_iff [of "neg (T X_b)" err] by simp
  from 2 have d: "length err = (if length y = 1 then length y_pred else length y)"
    by (rule np_subtract_Inr_length)
  from b c d have "length y = shape0 X_b \<or> length y = 1" by (auto split: if_splits)
  with a show ?thesis by simp
qed

lemma gd_step_succeeds:
  assumes "shape1 X_b = length beta" and "length y = shape0 X_b \<or> length y = 1"
  shows "\<exists>r. gd_step X_b y lr n beta = Inr r"
proof -
  from assms(1) obtain y_pred where 1: "matvec X_b beta = Inr y_pred"
    using matvec_Inr_iff by blast
  then have b: "length y_pred = shape0 X_b" by (rule matvec_Inr_length)
  with assms(2) obtain err where 2: "np_subtract y y_pred = Inr err"
    using np_subtract_Inr_iff [of y y_pred] by auto
  then have "length err = (if length y = 1 then length y_pred else length y)"
    by (rule np_subtract_Inr_length)
  with assms(2) b have c: "length err = shape0 X_b" by auto
  then obtain g where 3: "matvec (neg (T X_b)) err = Inr g"
    using matvec_Inr_iff [of "neg (T X_b)" err] by auto
  then have "length g = shape1 X_b" using matvec_Inr_length [OF 3] by simp
  with assms(1) have "length beta = length (map (\<lambda>x. lr * x) (map (\<lambda>x. x / real n) g))"
    by simp
  then obtain beta' where 4: "np_isubtract beta (map (\<lambda>x. lr * x) (map (\<lambda>x. x / real n) g)) = Inr beta'"
    by (simp add: np_isubtract_def)
  have "gd_step X_b y lr n beta = Inr (beta', 0.5 * np_mean (map (\<lambda>x. x ^ 2) err))"
    by (simp add: gd_step_def Let_def 1 2 3 4 del: map_map)
  then show ?thesis by blast
qed

lemma gd_step_Inr_iff:
  "(\<exists>r. gd_step X_b y lr n beta = Inr r) \<longleftrightarrow>
     shape1 X_b = length beta \<and> (length y = shape0 X_b \<or> length y = 1)"
  using gd_step_Inr_shapes gd_step_succeeds by blast

lemma gd_step_fails:
  "\<not> (shape1 X_b = length beta \<and> (length y = shape0 X_b \<or> length y = 1)) \<Longrightarrow>
     gd_step X_b y lr n beta = Inl ValueError"
  using gd_step_Inr_iff [of X_b y lr n beta] gd_step_Inl [of X_b y lr n beta]
  by (cases "gd_step X_b y lr n beta") auto

subsection \<open>The loop\<close>

lemma gd_loop_Inl: "gd_loop k X_b y lr n beta h = Inl e \<Longrightarrow> e = ValueError"
  by (induction k arbitrary: beta h) (auto split: sum.splits dest: gd_step_Inl)

lemma gd_loop_succeeds:
  assumes "shape1 X_b = length beta" and "length y = shape0 X_b \<or> length y = 1"
  shows "\<exists>beta' entries. gd_loop k X_b y lr n beta h = Inr (beta', h @ entries) \<and>
           length entries = k \<and> length beta' = length beta"
  using assms(1)
proof (induction k arbitrary: beta h)
  case 0
  then show ?case by simp
next
  case (Suc k)
  from gd_step_succeeds [OF Suc.prems assms(2)] obtain b1 l1
    where s: "gd_step X_b y lr n beta = Inr (b1, l1)" by fastforce
  then have len: "length b1 = length beta" by (rule gd_step_length)
  with Suc.prems have "shape1 X_b = length b1" by simp
  from Suc.IH [OF this, of "h @ [(b1, l1)]"] obtain beta' entries where
    "gd_loop k X_b y lr n b1 (h @ [(b1, l1)]) = Inr (beta', (h @ [(b1, l1)]) @ entries)"
    "length entries = k" "length beta' = length b1" by blast
  with s len show ?case
    by (intro exI [of _ beta'] exI [of _ "(b1, l1) # entries"]) simp
qed

lemma gd_loop_fails:
  assumes "\<not> (shape1 X_b = length beta \<and> (length y = shape0 X_b \<or> length y = 1))"
  shows "gd_loop (Suc k) X_b y lr n beta h = Inl ValueError"
  by (simp add: gd_step_fails [OF assms])

lemma gradient_descent_fails:
  assumes "0 < epochs" and "shape1 X \<noteq> 1 \<or> (length y \<noteq> shape0 X \<and> length y \<noteq> 1)"
  shows "gradient_descent X y lr epochs = Inl ValueError"
proof -
  from assms(1) obtain k where k: "nat epochs = Suc k"
    by (metis Suc_pred' zero_less_nat_eq)
  have "\<not> (shape1 (augment X) = length (np_zeros 2) \<and>
           (length y = shape0 (augment X) \<or> length y = 1))"
    using assms(2) by auto
  from gd_loop_fails [OF this] show ?thesis
    by (simp only: gradient_descent_augment k)
qed

lemma gradient_descent_succeeds:
  assumes "shape1 X = 1" and "length y = shape0 X \<or> length y = 1"
  shows "\<exists>beta history. gradient_descent X y lr epochs = Inr (beta, history) \<and>
           length history = nat epochs \<and> length beta = 2"
proof -
  have 1: "shape1 (augment X) = length (np_zeros 2)" using assms(1) by simp
  have 2: "length y = shape0 (augment X) \<or> length y = 1" using assms(2) by simp
  from gd_loop_succeeds [OF 1 2, of "nat epochs" lr "shape0 X" "[]"]
  show ?thesis by (simp add: gradient_descent_augment)
qed



lemmas gd_eval =
  gradient_descent_augment augment_def gd_step_def matvec_def
  np_zeros_def np_subtract_def np_isubtract_def np_mean_def dot_def T_def neg_def shape0_def
  numeral_2_eq_2

section \<open>The coefficient vector has two entries\<close>

text \<open>
  C1 says that for a design matrix with \<open>c\<close> feature columns the coefficient vector
  starts as \<open>c + 1\<close> zeros and is returned with \<open>c + 1\<close> entries, for every \<open>c\<close>.
  The code starts from \<^verbatim>\<open>np.zeros((2,))\<close> whatever \<open>c\<close> is. On a design matrix
  with two feature columns and three rows, iteration count 0 returns a vector of
  two entries, not three, and iteration count 1 raises \<^verbatim>\<open>ValueError\<close> at
  \<^verbatim>\<open>X_b @ beta\<close>, the product of a 3-by-3 array and a vector of length 2.
\<close>

theorem gradient_descent_two_feature_columns:
  "gradient_descent \<lparr>shape1 = 2, rows = [[1, 2], [3, 4], [5, 7]]\<rparr> [1, 2, 3] (1/100) 0
     = Inr ([0, 0], []) \<and>
   gradient_descent \<lparr>shape1 = 2, rows = [[1, 2], [3, 4], [5, 7]]\<rparr> [1, 2, 3] (1/100) 1
     = Inl ValueError"
  by (simp add: gd_eval)

section \<open>The loop and the loss history\<close>

text \<open>
  C6 says that for every valid input and every iteration count \<open>k \<ge> 0\<close> the loop
  runs exactly \<open>k\<close> passes and records one history entry per pass. A design matrix
  with two feature columns is a valid input, and on it the first pass raises
  \<^verbatim>\<open>ValueError\<close> (the initial vector has two entries, the augmented matrix three
  columns): with \<open>k = 2\<close> no pass completes and nothing is returned.
\<close>

theorem gradient_descent_two_features_no_pass:
  "gradient_descent \<lparr>shape1 = 2, rows = [[0, 1], [1, 0], [1, 1], [2, 5]]\<rparr> [5, 7, 9, 11] (1/20) 2
     = Inl ValueError"
  by (simp add: gd_eval)



section \<open>No validation of the arguments\<close>

text \<open>
  C7 says that with iteration count 0 the call returns the all-zero coefficient
  vector, which has one entry per column of the augmented design matrix, and an
  empty loss history. The history is empty, but the vector is \<^verbatim>\<open>np.zeros((2,))\<close>
  whatever the design matrix is: on three rows with two feature columns the call
  returns \<open>[0, 0]\<close>, not the three zeros of a coefficient vector for that matrix.
\<close>

theorem gradient_descent_zero_epochs_two_features:
  "gradient_descent \<lparr>shape1 = 2, rows = [[1, 0], [0, 1], [1, 1]]\<rparr> [1, 2, 3] (1/100) 0
     = Inr ([0, 0], []) \<and>
   gradient_descent \<lparr>shape1 = 2, rows = [[1, 0], [0, 1], [1, 1]]\<rparr> [1, 2, 3] (1/100) 0
     \<noteq> Inr (np_zeros (Suc 2), [])"
  by (simp add: gd_eval)



text \<open>
  C4 says that a non-positive learning rate or a negative iteration count makes
  the call fail with InvalidParameter. The code checks neither: with learning rate
  \<open>-1\<close> the pass runs and moves the coefficients against the descent direction, and
  with iteration count \<open>-3\<close> the call returns the zero vector and no history.
\<close>

theorem gradient_descent_invalid_parameter_counterexample:
  "gradient_descent \<lparr>shape1 = 1, rows = [[0], [1]]\<rparr> [1, 3] (-1) 1
     = Inr ([-2, -3/2], [([-2, -3/2], 5/2)]) \<and>
   gradient_descent \<lparr>shape1 = 1, rows = [[0], [1]]\<rparr> [1, 3] (1/100) (-3)
     = Inr ([0, 0], [])"
  by (simp add: gd_eval)

text \<open>
  C4 as amended: the learning rate and the iteration count are not validated. On
  a design matrix with one feature column and a target vector with one entry per
  row the call returns for every learning rate and every iteration count, with
  \<open>max(0, epochs)\<close> history entries; for an iteration count that is zero or
  negative it returns the zero vector.
\<close>

theorem gradient_descent_parameters_unchecked:
  assumes "shape1 X = 1" and "length y = shape0 X"
  shows "\<exists>beta history. gradient_descent X y lr epochs = Inr (beta, history) \<and>
           length history = nat epochs \<and> (epochs \<le> 0 \<longrightarrow> beta = [0, 0])"
proof -
  from gradient_descent_succeeds [of X y lr epochs] assms obtain beta history where
    r: "gradient_descent X y lr epochs = Inr (beta, history)" "length history = nat epochs"
    by blast
  have "beta = [0, 0]" if "epochs \<le> 0"
    using r(1) that by (simp add: gradient_descent_augment np_zeros_def numeral_2_eq_2)
  with r show ?thesis by blast
qed

theorem gradient_descent_parameters_unchecked_witness:
  "shape1 \<lparr>shape1 = 1, rows = [[0], [1]]\<rparr> = 1 \<and>
   length [1, 3 :: real] = shape0 \<lparr>shape1 = 1, rows = [[0], [1]]\<rparr> \<and>
   (\<exists>beta history. gradient_descent \<lparr>shape1 = 1, rows = [[0], [1]]\<rparr> [1, 3] (-1) (-3)
        = Inr (beta, history) \<and> length history = nat (-3) \<and> beta = [0, 0])"
  using gradient_descent_parameters_unchecked
    [of "\<lparr>shape1 = 1, rows = [[0], [1]]\<rparr>" "[1, 3]" "-1" "-3"]
  by (simp add: shape0_def)

section \<open>Facts about the closed-form solver\<close>

lemma closed_form_augment:
  "linear_regression_closed_form X y =
     (case matmul (T (augment X)) (augment X) of Inl e \<Rightarrow> Inl e | Inr G \<Rightarrow>
     (case np_linalg_inv G of Inl e \<Rightarrow> Inl e | Inr Ginv \<Rightarrow>
     (case matmul Ginv (T (augment X)) of Inl e \<Rightarrow> Inl e | Inr P \<Rightarrow>
      matvec P y)))"
  by (simp add: linear_regression_closed_form_def normal_equation_def np_c_ones)

lemmas cf_eval = closed_form_augment augment_def matmul_def matvec_def T_def
  shape0_def dot_def np_linalg_inv_def identity_rows_def scale_row_def sub_row_def eliminate_def
  Let_def

lemma find_pivot_None_iff: "find_pivot k ts = None \<longleftrightarrow> (\<forall>t\<in>set ts. fst t ! k = 0)"
  by (induction ts) (auto split: option.splits)

lemma np_linalg_inv_Inl: "np_linalg_inv A = Inl e \<Longrightarrow> e = LinAlgError"
  by (auto simp: np_linalg_inv_def split: if_splits option.splits)

lemma np_linalg_inv_shape1: "np_linalg_inv A = Inr B \<Longrightarrow> shape1 B = shape1 A"
  by (auto simp: np_linalg_inv_def split: if_splits option.splits)

lemma matmul_Inr_iff: "(\<exists>C. matmul A B = Inr C) \<longleftrightarrow> shape1 A = shape0 B"
  by (auto simp: matmul_def)

lemma matmul_shape: "matmul A B = Inr C \<Longrightarrow> shape1 C = shape1 B \<and> shape0 C = shape0 A"
  by (auto simp: matmul_def shape0_def split: if_splits)

lemma matvec_fails: "shape1 A \<noteq> length v \<Longrightarrow> matvec A v = Inl ValueError"
  by (simp add: matvec_def)

lemma closed_form_length_mismatch:
  assumes "length y \<noteq> shape0 X"
  shows "linear_regression_closed_form X y = Inl LinAlgError \<or>
         linear_regression_closed_form X y = Inl ValueError"
proof -
  obtain G where G: "matmul (T (augment X)) (augment X) = Inr G"
    using matmul_Inr_iff [of "T (augment X)" "augment X"] by auto
  then have sG: "shape1 G = Suc (shape1 X)" using matmul_shape [OF G] by simp
  show ?thesis
  proof (cases "np_linalg_inv G")
    case (Inl e)
    then show ?thesis using np_linalg_inv_Inl [OF Inl] by (simp add: closed_form_augment G)
  next
    case (Inr Ginv)
    then have "shape1 Ginv = shape0 (T (augment X))"
      using np_linalg_inv_shape1 [OF Inr] sG by simp
    then obtain P where P: "matmul Ginv (T (augment X)) = Inr P"
      using matmul_Inr_iff [of Ginv "T (augment X)"] by auto
    then have "shape1 P = shape0 X" using matmul_shape [OF P] by simp
    with assms have "matvec P y = Inl ValueError" by (simp add: matvec_fails)
    then show ?thesis by (simp add: closed_form_augment G Inr P)
  qed
qed

lemma closed_form_empty:
  assumes "shape0 X = 0"
  shows "linear_regression_closed_form X y = Inl LinAlgError"
proof -
  from assms have r: "rows X = []" by (simp add: shape0_def)
  let ?n = "Suc (shape1 X)"
  let ?G = "\<lparr>shape1 = ?n, rows = replicate ?n (replicate ?n (0::real))\<rparr>"
  have G: "matmul (T (augment X)) (augment X) = Inr ?G"
    by (simp add: matmul_def T_def augment_def shape0_def r dot_def map_replicate_const del: upt_Suc)
  have "find_pivot 0 (zip (rows ?G) (identity_rows ?n)) = None"
    unfolding find_pivot_None_iff by (auto dest!: set_zip_leftD)
  then have "np_linalg_inv ?G = Inl LinAlgError"
    by (simp add: np_linalg_inv_def shape0_def del: replicate.simps)
  then show ?thesis by (simp add: closed_form_augment G)
qed

section \<open>Shape mismatches\<close>

text \<open>
  C3 says that a target vector whose length differs from the row count, or an
  empty design matrix, makes both routines fail with InputShapeMismatch at once.
  Neither routine checks shapes itself. \<open>gradient_descent\<close> with three rows and
  four targets returns normally when the iteration count is 0; with three rows and
  a target of one entry it runs, the target being broadcast; and on an empty
  design matrix with iteration count 0 it returns as well.
\<close>

theorem shape_mismatch_counterexample:
  "gradient_descent \<lparr>shape1 = 1, rows = [[0], [1], [2]]\<rparr> [5, 7, 9, 11] (1/100) 0
     = Inr ([0, 0], []) \<and>
   gradient_descent \<lparr>shape1 = 1, rows = [[0], [1], [2]]\<rparr> [4] (1/2) 1
     = Inr ([2, 2], [([2, 2], 8)]) \<and>
   gradient_descent \<lparr>shape1 = 1, rows = []\<rparr> [] (1/100) 0 = Inr ([0, 0], [])"
  by (simp add: gd_eval)

text \<open>
  C3 as amended: the failures on a shape mismatch are those of the numpy
  operations. When the target length differs from the row count, the closed-form
  solver fails: with \<^verbatim>\<open>LinAlgError\<close> when the inversion fails (it comes first), with
  \<^verbatim>\<open>ValueError\<close> from the last product otherwise; \<open>gradient_descent\<close> fails with
  \<^verbatim>\<open>ValueError\<close> in its first pass, provided the iteration count is positive and
  the target does not have exactly one entry. On an empty design matrix the
  closed-form solver fails with \<^verbatim>\<open>LinAlgError\<close>, \<open>A\<^sup>T A\<close> being the zero matrix.
\<close>

theorem shape_mismatch_failures:
  "(length y \<noteq> shape0 X \<longrightarrow>
      linear_regression_closed_form X y = Inl LinAlgError \<or>
      linear_regression_closed_form X y = Inl ValueError) \<and>
   (length y \<noteq> shape0 X \<and> length y \<noteq> 1 \<and> 0 < epochs \<longrightarrow>
      gradient_descent X y lr epochs = Inl ValueError) \<and>
   (shape0 X = 0 \<longrightarrow> linear_regression_closed_form X y = Inl LinAlgError)"
  using closed_form_length_mismatch [of y X] gradient_descent_fails [of epochs X y lr]
    closed_form_empty [of X y]
  by blast

theorem shape_mismatch_failures_witness:
  "linear_regression_closed_form \<lparr>shape1 = 1, rows = [[0], [1], [2]]\<rparr> [5, 7, 9, 11] = Inl ValueError \<and>
   gradient_descent \<lparr>shape1 = 1, rows = [[0], [1], [2]]\<rparr> [5, 7, 9, 11] (1/100) 100 = Inl ValueError \<and>
   linear_regression_closed_form \<lparr>shape1 = 1, rows = []\<rparr> [5, 7] = Inl LinAlgError"
proof -
  have 1: "linear_regression_closed_form \<lparr>shape1 = 1, rows = [[0], [1], [2]]\<rparr> [5, 7, 9, 11]
             \<noteq> Inl LinAlgError"
    by (simp add: cf_eval eval_nat_numeral)
  from shape_mismatch_failures
    [of "[5, 7, 9, 11]" "\<lparr>shape1 = 1, rows = [[0], [1], [2]]\<rparr>" 100 "1/100"]
    shape_mismatch_failures [of "[5, 7]" "\<lparr>shape1 = 1, rows = []\<rparr>" 100 "1/100"] 1
  show ?thesis by (simp add: shape0_def)
qed

section \<open>Inputs are not written, results are new objects\<close>

lemma gd_loop_st_correct:
  assumes "gd_loop_st k s aXb ay lr n abeta h = (res, s')"
    and "get2 s aXb = Some X_b" and "get1 s ay = Some y" and "get1 s abeta = Some beta"
    and "aXb \<noteq> abeta" and "ay \<noteq> abeta"
    and "aXb < fresh s" and "ay < fresh s" and "abeta < fresh s"
    and "f0 \<le> fresh s"
    and "\<forall>a\<in>fst ` set h. f0 \<le> a \<and> a < fresh s \<and> a \<noteq> abeta"
    and "distinct (map fst h)"
    and "read_history s h = map (\<lambda>(b, l). (Some b, l)) hp"
  shows "(\<forall>a. a < fresh s \<longrightarrow> a \<noteq> abeta \<longrightarrow> cells s' a = cells s a) \<and> fresh s \<le> fresh s' \<and>
         (case res of
            Inl e \<Rightarrow> gd_loop k X_b y lr n beta hp = Inl e
          | Inr (ab, h') \<Rightarrow>
              ab = abeta \<and> (\<forall>a\<in>fst ` set h'. f0 \<le> a \<and> a < fresh s' \<and> a \<noteq> abeta) \<and>
              distinct (map fst h') \<and>
              (\<exists>beta' hp'. gd_loop k X_b y lr n beta hp = Inr (beta', hp') \<and>
                 get1 s' abeta = Some beta' \<and>
                 read_history s' h' = map (\<lambda>(b, l). (Some b, l)) hp'))"
  using assms
proof (induction k arbitrary: s beta h hp)
  case 0
  then show ?case by auto
next
  case (Suc k)
  note X = Suc.prems(2) and y = Suc.prems(3) and b = Suc.prems(4)
  show ?case
  proof (cases "gd_step X_b y lr n beta")
    case (Inl e)
    with Suc.prems(1) X y b have "res = Inl e" "s' = s" by auto
    with Inl show ?thesis by simp
  next
    case (Inr r)
    obtain beta' loss where r: "r = (beta', loss)" by (cases r)
    define s2 where "s2 = s\<lparr>cells := (cells s)(abeta \<mapsto> Arr1 beta', fresh s \<mapsto> Arr1 beta'),
                            fresh := Suc (fresh s)\<rparr>"
    have step: "gd_step X_b y lr n beta = Inr (beta', loss)" using Inr r by simp
    have run: "gd_loop_st k s2 aXb ay lr n abeta (h @ [(fresh s, loss)]) = (res, s')"
      using Suc.prems(1) X y b step by (simp add: alloc_def store_write_def s2_def)
    have other: "cells s2 a = cells s a" if "a < fresh s" "a \<noteq> abeta" for a
      using that by (simp add: s2_def)
    have g1: "get1 s2 a = get1 s a" if "a < fresh s" "a \<noteq> abeta" for a
      using other [OF that] by (simp add: get1_def)
    have p2: "get2 s2 aXb = Some X_b"
      using X other [OF Suc.prems(7) Suc.prems(5)] by (simp add: get2_def)
    have p3: "get1 s2 ay = Some y" using y g1 [OF Suc.prems(8) Suc.prems(6)] by simp
    have p4: "get1 s2 abeta = Some beta'" using Suc.prems(9) by (simp add: get1_def s2_def)
    have fr: "fresh s2 = Suc (fresh s)" by (simp add: s2_def)
    have p10: "f0 \<le> fresh s2" using Suc.prems(10) fr by simp
    have p11: "\<forall>a\<in>fst ` set (h @ [(fresh s, loss)]). f0 \<le> a \<and> a < fresh s2 \<and> a \<noteq> abeta"
      using Suc.prems(11) Suc.prems(10) Suc.prems(9) fr by auto
    have p12: "distinct (map fst (h @ [(fresh s, loss)]))"
      using Suc.prems(12) Suc.prems(11) by auto
    have old: "read_history s2 h = read_history s h"
      unfolding read_history_def using Suc.prems(11) by (auto intro!: map_cong g1)
    have new: "get1 s2 (fresh s) = Some beta'" using Suc.prems(9) by (simp add: get1_def s2_def)
    have "read_history s2 (h @ [(fresh s, loss)]) = read_history s2 h @ [(get1 s2 (fresh s), loss)]"
      by (simp add: read_history_def)
    also have "\<dots> = map (\<lambda>(b, l). (Some b, l)) hp @ [(Some beta', loss)]"
      by (simp only: old Suc.prems(13) new)
    also have "\<dots> = map (\<lambda>(b, l). (Some b, l)) (hp @ [(beta', loss)])" by simp
    finally have p13: "read_history s2 (h @ [(fresh s, loss)])
                      = map (\<lambda>(b, l). (Some b, l)) (hp @ [(beta', loss)])" .
    from Suc.IH [OF run p2 p3 p4 Suc.prems(5) Suc.prems(6) _ _ _ p10 p11 p12 p13] Suc.prems(7-9) fr
    have IH: "(\<forall>a. a < fresh s2 \<longrightarrow> a \<noteq> abeta \<longrightarrow> cells s' a = cells s2 a) \<and> fresh s2 \<le> fresh s' \<and>
         (case res of
            Inl e \<Rightarrow> gd_loop k X_b y lr n beta' (hp @ [(beta', loss)]) = Inl e
          | Inr (ab, h') \<Rightarrow>
              ab = abeta \<and> (\<forall>a\<in>fst ` set h'. f0 \<le> a \<and> a < fresh s' \<and> a \<noteq> abeta) \<and>
              distinct (map fst h') \<and>
              (\<exists>beta'' hp'. gd_loop k X_b y lr n beta' (hp @ [(beta', loss)]) = Inr (beta'', hp') \<and>
                 get1 s' abeta = Some beta'' \<and>
                 read_history s' h' = map (\<lambda>(b, l). (Some b, l)) hp'))"
      by simp
    have frame: "\<forall>a. a < fresh s \<longrightarrow> a \<noteq> abeta \<longrightarrow> cells s' a = cells s a"
      using IH other fr by auto
    have mono: "fresh s \<le> fresh s'" using IH fr by simp
    have loop: "gd_loop (Suc k) X_b y lr n beta hp = gd_loop k X_b y lr n beta' (hp @ [(beta', loss)])"
      using step by simp
    show ?thesis using frame mono IH unfolding loop by blast
  qed
qed

lemma store_ok_allocated: "store_ok s \<Longrightarrow> cells s a = Some v \<Longrightarrow> a < fresh s"
  unfolding store_ok_def by (metis not_le option.distinct(1))

lemma gradient_descent_st_correct:
  assumes ok: "store_ok s" and X: "cells s aX = Some (Arr2 X)" and y: "cells s ay = Some (Arr1 y)"
    and run: "gradient_descent_st s aX ay lr epochs = (res, s')"
  shows "(\<forall>a<fresh s. cells s' a = cells s a) \<and>
         (case res of
            Inl e \<Rightarrow> gradient_descent X y lr epochs = Inl e
          | Inr (abeta, h) \<Rightarrow>
              fresh s \<le> abeta \<and> (\<forall>a\<in>fst ` set h. fresh s \<le> a \<and> a \<noteq> abeta) \<and>
              distinct (map fst h) \<and>
              (\<exists>beta hp. gradient_descent X y lr epochs = Inr (beta, hp) \<and>
                 get1 s' abeta = Some beta \<and>
                 read_history s' h = map (\<lambda>(b, l). (Some b, l)) hp))"
proof -
  let ?f = "fresh s"
  define s2 where "s2 = s\<lparr>cells := (cells s)(?f \<mapsto> Arr2 (augment X), Suc ?f \<mapsto> Arr1 (np_zeros 2)),
                          fresh := Suc (Suc ?f)\<rparr>"
  have ay: "ay < ?f" using store_ok_allocated [OF ok y] .
  have gX: "get2 s aX = Some X" using X by (simp add: get2_def)
  have loop: "gd_loop_st (nat epochs) s2 ?f ay lr (shape0 X) (Suc ?f) [] = (res, s')"
    using run gX by (simp add: gradient_descent_st_def np_c_ones alloc_def s2_def Let_def)
  have p2: "get2 s2 ?f = Some (augment X)" by (simp add: get2_def s2_def)
  have p3: "get1 s2 ay = Some y" using y ay by (simp add: get1_def s2_def)
  have p4: "get1 s2 (Suc ?f) = Some (np_zeros 2)" by (simp add: get1_def s2_def)
  have fr: "fresh s2 = Suc (Suc ?f)" by (simp add: s2_def)
  from gd_loop_st_correct [OF loop p2 p3 p4, of ?f "[]"] ay fr
  have L: "(\<forall>a. a < fresh s2 \<longrightarrow> a \<noteq> Suc ?f \<longrightarrow> cells s' a = cells s2 a) \<and>
         (case res of
            Inl e \<Rightarrow> gd_loop (nat epochs) (augment X) y lr (shape0 X) (np_zeros 2) [] = Inl e
          | Inr (ab, h') \<Rightarrow>
              ab = Suc ?f \<and> (\<forall>a\<in>fst ` set h'. ?f \<le> a \<and> a < fresh s' \<and> a \<noteq> Suc ?f) \<and>
              distinct (map fst h') \<and>
              (\<exists>beta' hp'. gd_loop (nat epochs) (augment X) y lr (shape0 X) (np_zeros 2) [] = Inr (beta', hp') \<and>
                 get1 s' (Suc ?f) = Some beta' \<and>
                 read_history s' h' = map (\<lambda>(b, l). (Some b, l)) hp'))"
    by (simp add: read_history_def)
  have frame: "\<forall>a<?f. cells s' a = cells s a"
  proof (intro allI impI)
    fix a assume a: "a < ?f"
    then have "cells s' a = cells s2 a" using L fr by simp
    also have "\<dots> = cells s a" using a by (simp add: s2_def)
    finally show "cells s' a = cells s a" .
  qed
  show ?thesis
  proof (cases res)
    case (Inl e)
    with L frame show ?thesis by (simp add: gradient_descent_augment)
  next
    case (Inr r)
    obtain ab h where r: "r = (ab, h)" by (cases r)
    with Inr L have "ab = Suc ?f" "\<forall>a\<in>fst ` set h. ?f \<le> a \<and> a \<noteq> Suc ?f" "distinct (map fst h)"
      "\<exists>beta' hp'. gradient_descent X y lr epochs = Inr (beta', hp') \<and>
                 get1 s' (Suc ?f) = Some beta' \<and>
                 read_history s' h = map (\<lambda>(b, l). (Some b, l)) hp'"
      by (auto simp: gradient_descent_augment)
    with Inr r frame show ?thesis by simp
  qed
qed

lemma closed_form_st_correct:
  assumes ok: "store_ok s" and X: "cells s aX = Some (Arr2 X)" and y: "cells s ay = Some (Arr1 y)"
    and run: "linear_regression_closed_form_st s aX ay = (res, s')"
  shows "(\<forall>a<fresh s. cells s' a = cells s a) \<and>
         (case res of
            Inl e \<Rightarrow> linear_regression_closed_form X y = Inl e
          | Inr a \<Rightarrow> fresh s \<le> a \<and>
              (\<exists>b. linear_regression_closed_form X y = Inr b \<and> get1 s' a = Some b))"
proof -
  let ?f = "fresh s"
  define s1 where "s1 = s\<lparr>cells := (cells s)(?f \<mapsto> Arr2 (augment X)), fresh := Suc ?f\<rparr>"
  have ay: "ay < ?f" using store_ok_allocated [OF ok y] .
  have gX: "get2 s aX = Some X" using X by (simp add: get2_def)
  have gy: "get1 s1 ay = Some y" using y ay by (simp add: get1_def s1_def)
  have cf: "linear_regression_closed_form X y = normal_equation (augment X) y"
    by (simp add: linear_regression_closed_form_def np_c_ones)
  show ?thesis
  proof (cases "normal_equation (augment X) y")
    case (Inl e)
    with run gX gy have "res = Inl e" "s' = s1"
      by (auto simp: linear_regression_closed_form_st_def np_c_ones alloc_def s1_def)
    then show ?thesis using Inl cf by (simp add: s1_def)
  next
    case (Inr b)
    with run gX gy have "res = Inr (Suc ?f)"
      "s' = s1\<lparr>cells := (cells s1)(Suc ?f \<mapsto> Arr1 b), fresh := Suc (Suc ?f)\<rparr>"
      by (auto simp: linear_regression_closed_form_st_def np_c_ones alloc_def s1_def)
    then show ?thesis using Inr cf by (simp add: s1_def get1_def)
  qed
qed

text \<open>
  C8: neither routine writes to the design matrix or the target vector. Run on a
  well-formed store that holds \<open>X\<close> at \<open>aX\<close> and \<open>y\<close> at \<open>ay\<close>, each routine leaves
  every object of the initial store as it was, the two inputs among them, whether
  it returns or raises. What it returns are references to cells that were free in
  the initial store: the coefficient vector, and for \<open>gradient_descent\<close> one
  snapshot per history entry, all distinct and distinct from the coefficient
  vector. Read through these references, the result is that of the routine on
  values.
\<close>

theorem inputs_not_mutated:
  assumes ok: "store_ok s" and X: "cells s aX = Some (Arr2 X)" and y: "cells s ay = Some (Arr1 y)"
  shows "(\<forall>a<fresh s. cells (snd (gradient_descent_st s aX ay lr epochs)) a = cells s a) \<and>
         cells (snd (gradient_descent_st s aX ay lr epochs)) aX = Some (Arr2 X) \<and>
         cells (snd (gradient_descent_st s aX ay lr epochs)) ay = Some (Arr1 y) \<and>
         (case fst (gradient_descent_st s aX ay lr epochs) of
            Inl e \<Rightarrow> gradient_descent X y lr epochs = Inl e
          | Inr (abeta, h) \<Rightarrow>
              fresh s \<le> abeta \<and> (\<forall>a\<in>fst ` set h. fresh s \<le> a \<and> a \<noteq> abeta) \<and>
              distinct (map fst h) \<and>
              (\<exists>beta hp. gradient_descent X y lr epochs = Inr (beta, hp) \<and>
                 get1 (snd (gradient_descent_st s aX ay lr epochs)) abeta = Some beta \<and>
                 read_history (snd (gradient_descent_st s aX ay lr epochs)) h
                   = map (\<lambda>(b, l). (Some b, l)) hp)) \<and>
         (\<forall>a<fresh s. cells (snd (linear_regression_closed_form_st s aX ay)) a = cells s a) \<and>
         cells (snd (linear_regression_closed_form_st s aX ay)) aX = Some (Arr2 X) \<and>
         cells (snd (linear_regression_closed_form_st s aX ay)) ay = Some (Arr1 y) \<and>
         (case fst (linear_regression_closed_form_st s aX ay) of
            Inl e \<Rightarrow> linear_regression_closed_form X y = Inl e
          | Inr a \<Rightarrow> fresh s \<le> a \<and>
              (\<exists>b. linear_regression_closed_form X y = Inr b \<and>
                   get1 (snd (linear_regression_closed_form_st s aX ay)) a = Some b))"
proof -
  have aX: "aX < fresh s" and ay: "ay < fresh s"
    using store_ok_allocated [OF ok X] store_ok_allocated [OF ok y] by simp_all
  have g: "gradient_descent_st s aX ay lr epochs
             = (fst (gradient_descent_st s aX ay lr epochs), snd (gradient_descent_st s aX ay lr epochs))"
    by simp
  have c: "linear_regression_closed_form_st s aX ay
             = (fst (linear_regression_closed_form_st s aX ay), snd (linear_regression_closed_form_st s aX ay))"
    by simp
  note G = gradient_descent_st_correct [OF ok X y g]
  note C = closed_form_st_correct [OF ok X y c]
  from G aX ay X y have 1: "cells (snd (gradient_descent_st s aX ay lr epochs)) aX = Some (Arr2 X)"
    "cells (snd (gradient_descent_st s aX ay lr epochs)) ay = Some (Arr1 y)" by simp_all
  from C aX ay X y have 2: "cells (snd (linear_regression_closed_form_st s aX ay)) aX = Some (Arr2 X)"
    "cells (snd (linear_regression_closed_form_st s aX ay)) ay = Some (Arr1 y)" by simp_all
  from G C 1 2 show ?thesis by blast
qed

theorem inputs_not_mutated_witness:
  "store_ok example_store \<and>
   cells (snd (gradient_descent_st example_store 0 1 (1/2) 2)) 0
     = Some (Arr2 \<lparr>shape1 = 1, rows = [[0], [1]]\<rparr>) \<and>
   cells (snd (gradient_descent_st example_store 0 1 (1/2) 2)) 1 = Some (Arr1 [1, 3]) \<and>
   fst (gradient_descent_st example_store 0 1 (1/2) 2) = Inr (3, [(4, 5/2), (5, 25/64)]) \<and>
   cells (snd (linear_regression_closed_form_st example_store 0 1)) 0
     = Some (Arr2 \<lparr>shape1 = 1, rows = [[0], [1]]\<rparr>) \<and>
   cells (snd (linear_regression_closed_form_st example_store 0 1)) 1 = Some (Arr1 [1, 3]) \<and>
   fst (linear_regression_closed_form_st example_store 0 1) = Inr 3"
proof -
  have ok: "store_ok example_store" by (simp add: store_ok_def example_store_def)
  have X: "cells example_store 0 = Some (Arr2 \<lparr>shape1 = 1, rows = [[0], [1]]\<rparr>)"
    and y: "cells example_store 1 = Some (Arr1 [1, 3])"
    by (simp_all add: example_store_def)
  have g: "fst (gradient_descent_st example_store 0 1 (1/2) 2) = Inr (3, [(4, 5/2), (5, 25/64)])"
    by (simp add: gradient_descent_st_def example_store_def get1_def get2_def alloc_def
        store_write_def np_c_def np_ones_def Let_def gd_eval)
  have c: "fst (linear_regression_closed_form_st example_store 0 1) = Inr 3"
    by (simp add: linear_regression_closed_form_st_def example_store_def get1_def get2_def
        alloc_def np_c_def np_ones_def Let_def normal_equation_def cf_eval eval_nat_numeral)
  from inputs_not_mutated [OF ok X y, of "1/2" 2] ok g c show ?thesis by simp
qed

end
